theory Spec2Isabelle
  imports Main "HOL-Library.Sublist"
begin

section \<open>Text, character classes and regular expressions\<close>

text \<open>
  The three migration scripts work on the text of a file as a Python \<open>str\<close> and on
  patterns of the \<open>re\<close> module. A text is modelled as a \<^typ>\<open>string\<close>; a character is
  read as the code point of the same number, so the texts covered are those whose code
  points lie below 256. The patterns of the scripts use literal characters, the classes
  \<open>\s\<close>, \<open>\d\<close>, \<open>\w\<close>, bracketed sets and their complements, the greedy quantifiers
  \<open>*\<close> and \<open>+\<close> on a single class, \<open>?\<close> on a group, alternation and at most one
  capturing group. They use neither anchors nor look-around nor the dot, so the flags
  \<open>re.MULTILINE\<close> and \<open>re.DOTALL\<close> passed by the scripts do not change what is matched,
  and a match attempt at a position reads only the text from that position on.
\<close>

datatype cls = Space | Digit | Word | NoneOf string | OneOf string

definition space_chars :: string where
  "space_chars = [CHR 0x09, CHR 0x0A, CHR 0x0B, CHR 0x0C, CHR 0x0D, CHR 0x1C, CHR 0x1D,
     CHR 0x1E, CHR 0x1F, CHR 0x20, CHR 0x85, CHR 0xA0]"

definition word_char :: "char \<Rightarrow> bool" where
  "word_char c = (let n = (of_char c :: nat) in
     (48 \<le> n \<and> n \<le> 57) \<or> (65 \<le> n \<and> n \<le> 90) \<or> n = 95 \<or> (97 \<le> n \<and> n \<le> 122) \<or>
     n = 170 \<or> n = 178 \<or> n = 179 \<or> n = 181 \<or> n = 185 \<or> n = 186 \<or>
     (188 \<le> n \<and> n \<le> 190) \<or> (192 \<le> n \<and> n \<noteq> 215 \<and> n \<noteq> 247))"

fun in_cls :: "cls \<Rightarrow> char \<Rightarrow> bool" where
  "in_cls Space c = (c \<in> set space_chars)"
| "in_cls Digit c = (c \<in> set ''0123456789'')"
| "in_cls Word c = word_char c"
| "in_cls (NoneOf cs) c = (c \<notin> set cs)"
| "in_cls (OneOf cs) c = (c \<in> set cs)"

datatype re = Lit string | Cls cls | Star cls | Plus cls | Alt re re | Opt re | Seq re re | Grp re

fun seqs :: "re list \<Rightarrow> re" where
  "seqs [] = Lit []"
| "seqs [r] = r"
| "seqs (r # rs) = Seq r (seqs rs)"

definition ws :: re where
  "ws = Star Space"

definition nl :: re where
  "nl = Lit ''\<newline>''"

definition quote :: cls where
  "quote = OneOf [CHR 0x27, CHR 0x22]"

definition nonquote :: cls where
  "nonquote = NoneOf [CHR 0x27, CHR 0x22]"

subsection \<open>Matching by backtracking\<close>

text \<open>
  \<open>re_run k s g\<close> matches the stack \<open>k\<close> of pending pattern parts against the text \<open>s\<close> in
  the order in which a backtracking matcher tries the alternatives: the left branch of an
  alternation first, a group under \<open>?\<close> before its absence, and a quantified class from its
  longest run down to its shortest. It returns the rest of the text after the first
  successful attempt together with the capture, or \<open>None\<close> when every attempt fails. A
  capture is kept as the text at the opening and at the closing of the group.
\<close>

datatype frame = Re re | Close string

type_synonym capture = "(string \<times> string) option"

fun strip_prefix :: "string \<Rightarrow> string \<Rightarrow> string option" where
  "strip_prefix [] s = Some s"
| "strip_prefix (p # ps) [] = None"
| "strip_prefix (p # ps) (c # cs) = (if p = c then strip_prefix ps cs else None)"

fun re_weight :: "re \<Rightarrow> nat" where
  "re_weight (Alt a b) = Suc (re_weight a + re_weight b)"
| "re_weight (Seq a b) = Suc (re_weight a + re_weight b)"
| "re_weight (Opt a) = Suc (re_weight a)"
| "re_weight (Grp a) = Suc (Suc (re_weight a))"
| "re_weight (Lit l) = 1"
| "re_weight (Cls c) = 1"
| "re_weight (Star c) = 1"
| "re_weight (Plus c) = 1"

fun frame_weight :: "frame \<Rightarrow> nat" where
  "frame_weight (Re r) = re_weight r"
| "frame_weight (Close st) = 1"

function re_run :: "frame list \<Rightarrow> string \<Rightarrow> capture \<Rightarrow> (capture \<times> string) option"
  and re_star :: "cls \<Rightarrow> frame list \<Rightarrow> string \<Rightarrow> capture \<Rightarrow> (capture \<times> string) option" where
  "re_run [] s g = Some (g, s)"
| "re_run (Re (Lit l) # k) s g =
     (case strip_prefix l s of None \<Rightarrow> None | Some r \<Rightarrow> re_run k r g)"
| "re_run (Re (Cls c) # k) [] g = None"
| "re_run (Re (Cls c) # k) (x # xs) g = (if in_cls c x then re_run k xs g else None)"
| "re_run (Re (Star c) # k) s g = re_star c k s g"
| "re_run (Re (Plus c) # k) [] g = None"
| "re_run (Re (Plus c) # k) (x # xs) g = (if in_cls c x then re_star c k xs g else None)"
| "re_run (Re (Alt a b) # k) s g =
     (case re_run (Re a # k) s g of Some r \<Rightarrow> Some r | None \<Rightarrow> re_run (Re b # k) s g)"
| "re_run (Re (Opt a) # k) s g =
     (case re_run (Re a # k) s g of Some r \<Rightarrow> Some r | None \<Rightarrow> re_run k s g)"
| "re_run (Re (Seq a b) # k) s g = re_run (Re a # Re b # k) s g"
| "re_run (Re (Grp a) # k) s g = re_run (Re a # Close s # k) s g"
| "re_run (Close st # k) s g = re_run k s (Some (st, s))"
| "re_star c k [] g = re_run k [] g"
| "re_star c k (x # xs) g =
     (if in_cls c x
      then (case re_star c k xs g of Some r \<Rightarrow> Some r | None \<Rightarrow> re_run k (x # xs) g)
      else re_run k (x # xs) g)"
  by pat_completeness auto
termination
  by (relation "measures
        [\<lambda>x. case x of Inl (k, s, g) \<Rightarrow> 2 * sum_list (map frame_weight k)
                     | Inr (c, k, s, g) \<Rightarrow> Suc (2 * sum_list (map frame_weight k)),
         \<lambda>x. case x of Inl (k, s, g) \<Rightarrow> length s | Inr (c, k, s, g) \<Rightarrow> length s]") auto

text \<open>The least number of characters that a pattern part and a stack of parts consume.\<close>

fun re_min :: "re \<Rightarrow> nat" where
  "re_min (Lit l) = length l"
| "re_min (Cls c) = 1"
| "re_min (Star c) = 0"
| "re_min (Plus c) = 1"
| "re_min (Alt a b) = min (re_min a) (re_min b)"
| "re_min (Opt a) = 0"
| "re_min (Seq a b) = re_min a + re_min b"
| "re_min (Grp a) = re_min a"

fun frame_min :: "frame \<Rightarrow> nat" where
  "frame_min (Re r) = re_min r"
| "frame_min (Close st) = 0"

definition stack_min :: "frame list \<Rightarrow> nat" where
  "stack_min k = sum_list (map frame_min k)"

subsection \<open>Search, groups and substitution\<close>

text \<open>
  A match object keeps the text before the match, the text from the start of the match,
  the text after the match and the capture. \<open>re_search\<close> tries the positions from left to
  right, as \<open>re.search\<close> and the scan of \<open>re.sub\<close> do.
\<close>

datatype rmatch = RMatch (before: string) (start: string) (after: string) (grp: capture)

fun shift :: "char \<Rightarrow> rmatch \<Rightarrow> rmatch" where
  "shift c (RMatch b s a g) = RMatch (c # b) s a g"

fun re_search :: "re \<Rightarrow> string \<Rightarrow> rmatch option" where
  "re_search p [] =
     (case re_run [Re p] [] None of None \<Rightarrow> None | Some (g, r) \<Rightarrow> Some (RMatch [] [] r g))"
| "re_search p (c # cs) =
     (case re_run [Re p] (c # cs) None of
        Some (g, r) \<Rightarrow> Some (RMatch [] (c # cs) r g)
      | None \<Rightarrow> map_option (shift c) (re_search p cs))"

definition chop :: "string \<Rightarrow> string \<Rightarrow> string" where
  "chop st en = take (length st - length en) st"

definition group0 :: "rmatch \<Rightarrow> string" where
  "group0 m = chop (start m) (after m)"

definition group1 :: "rmatch \<Rightarrow> string" where
  "group1 m = (case grp m of None \<Rightarrow> [] | Some (st, en) \<Rightarrow> chop st en)"

lemma strip_prefix_Some: "strip_prefix l s = Some r \<Longrightarrow> s = l @ r"
  by (induction l s rule: strip_prefix.induct) (auto split: if_splits)


lemma re_run_consumes:
  "re_run k s g = Some (h, r) \<Longrightarrow> \<exists>m. s = m @ r \<and> stack_min k \<le> length m"
  "re_star c k s g = Some (h, r) \<Longrightarrow> \<exists>m. s = m @ r \<and> stack_min k \<le> length m"
proof (induction k s g and c k s g arbitrary: h r and h r rule: re_run_re_star.induct)
  case (1 s g)
  then show ?case by (simp add: stack_min_def)
next
  case (2 l k s g)
  from "2.prems" obtain t where t: "strip_prefix l s = Some t" "re_run k t g = Some (h, r)"
    by (auto split: option.splits)
  from "2.IH" [OF t] obtain m where "t = m @ r" "stack_min k \<le> length m" by blast
  with strip_prefix_Some [OF t(1)] have "s = (l @ m) @ r \<and> stack_min (Re (Lit l) # k) \<le> length (l @ m)"
    by (simp add: stack_min_def)
  then show ?case by blast
next
  case (3 c k g)
  then show ?case by simp
next
  case (4 c k x xs g)
  from "4.prems" have c: "in_cls c x" and run: "re_run k xs g = Some (h, r)"
    by (auto split: if_splits)
  from "4.IH" [OF c run] obtain m where "xs = m @ r" "stack_min k \<le> length m" by blast
  then have "x # xs = (x # m) @ r \<and> stack_min (Re (Cls c) # k) \<le> length (x # m)"
    by (simp add: stack_min_def)
  then show ?case by blast
next
  case (5 c k s g)
  then show ?case by (simp add: stack_min_def)
next
  case (6 c k g)
  then show ?case by simp
next
  case (7 c k x xs g)
  from "7.prems" have c: "in_cls c x" and run: "re_star c k xs g = Some (h, r)"
    by (auto split: if_splits)
  from "7.IH" [OF c run] obtain m where "xs = m @ r" "stack_min k \<le> length m" by blast
  then have "x # xs = (x # m) @ r \<and> stack_min (Re (Plus c) # k) \<le> length (x # m)"
    by (simp add: stack_min_def)
  then show ?case by blast
next
  case (8 a b k s g)
  show ?case
  proof (cases "re_run (Re a # k) s g")
    case None
    with "8.prems" have "re_run (Re b # k) s g = Some (h, r)" by simp
    from "8.IH"(2) [OF None this] show ?thesis
      by (auto simp: stack_min_def)
  next
    case (Some y)
    with "8.prems" have "re_run (Re a # k) s g = Some (h, r)" by simp
    from "8.IH"(1) [OF this] show ?thesis
      by (auto simp: stack_min_def)
  qed
next
  case (9 a k s g)
  show ?case
  proof (cases "re_run (Re a # k) s g")
    case None
    with "9.prems" have "re_run k s g = Some (h, r)" by simp
    from "9.IH"(2) [OF None this] show ?thesis
      by (auto simp: stack_min_def)
  next
    case (Some y)
    with "9.prems" have "re_run (Re a # k) s g = Some (h, r)" by simp
    from "9.IH"(1) [OF this] show ?thesis
      by (auto simp: stack_min_def)
  qed
next
  case (10 a b k s g)
  then show ?case by (simp add: stack_min_def add.assoc)
next
  case (11 a k s g)
  then show ?case by (simp add: stack_min_def)
next
  case (12 st k s g)
  then show ?case by (simp add: stack_min_def)
next
  case (13 c k g)
  then show ?case by simp
next
  case (14 c k x xs g)
  show ?case
  proof (cases "in_cls c x")
    case True
    show ?thesis
    proof (cases "re_star c k xs g")
      case None
      with True "14.prems" have run: "re_run k (x # xs) g = Some (h, r)" by simp
      from "14.IH"(2) [OF True None run] show ?thesis .
    next
      case (Some y)
      with True "14.prems" have run: "re_star c k xs g = Some (h, r)" by simp
      from "14.IH"(1) [OF True run] obtain m where "xs = m @ r" "stack_min k \<le> length m"
        by blast
      then have "x # xs = (x # m) @ r \<and> stack_min k \<le> length (x # m)" by simp
      then show ?thesis by blast
    qed
  next
    case False
    with "14.prems" have run: "re_run k (x # xs) g = Some (h, r)" by simp
    from "14.IH"(3) [OF False run] show ?thesis .
  qed
qed

lemma re_search_parts:
  "re_search p s = Some m \<Longrightarrow>
     s = before m @ start m \<and> start m = group0 m @ after m \<and> re_min p \<le> length (group0 m)"
proof (induction s arbitrary: m)
  case Nil
  then obtain g r where r: "re_run [Re p] [] None = Some (g, r)" "m = RMatch [] [] r g"
    by (auto split: option.splits)
  from re_run_consumes(1) [OF r(1)] r(2) show ?case
    by (auto simp: group0_def chop_def stack_min_def)
next
  case (Cons c cs)
  show ?case
  proof (cases "re_run [Re p] (c # cs) None")
    case None
    with Cons.prems obtain m' where m': "re_search p cs = Some m'" "m = shift c m'"
      by auto
    from Cons.IH [OF m'(1)] m'(2) show ?thesis
      by (cases m') (simp add: group0_def)
  next
    case (Some a)
    obtain g r where a: "a = (g, r)" by (cases a)
    from Cons.prems Some a have m: "m = RMatch [] (c # cs) r g" by simp
    from Some a re_run_consumes(1) obtain t where "c # cs = t @ r" "stack_min [Re p] \<le> length t"
      by blast
    with m show ?thesis
      by (simp add: group0_def chop_def stack_min_def)
  qed
qed

lemma re_search_after_length:
  assumes "re_search p s = Some m"
  shows "length (after m) \<le> length s" and "after m \<noteq> start m \<Longrightarrow> length (after m) < length s"
proof -
  from re_search_parts [OF assms]
  have s: "s = before m @ group0 m @ after m" and st: "start m = group0 m @ after m"
    by simp_all
  from s have "length s = length (before m) + length (group0 m) + length (after m)"
    by (metis length_append add.assoc)
  then show "length (after m) \<le> length s" by simp
  assume "after m \<noteq> start m"
  with st have "group0 m \<noteq> []" by auto
  with \<open>length s = _\<close> show "length (after m) < length s" by simp
qed

text \<open>
  \<open>re_sub_fn p f s\<close> is \<open>p.sub(f, s)\<close>: every match found by the scan from left to right
  is replaced by what \<open>f\<close> returns for it, and the scan goes on after the match. After an
  empty match the scan copies one character and goes on.
\<close>

function re_sub_fn :: "re \<Rightarrow> (rmatch \<Rightarrow> string) \<Rightarrow> string \<Rightarrow> string" where
  "re_sub_fn p f s =
     (case re_search p s of
        None \<Rightarrow> s
      | Some m \<Rightarrow>
          before m @ f m @
          (if after m = start m
           then (case after m of [] \<Rightarrow> [] | x # xs \<Rightarrow> x # re_sub_fn p f xs)
           else re_sub_fn p f (after m)))"
  by pat_completeness auto
termination
proof (relation "measure (\<lambda>(p, f, s). length s)")
  show "wf (measure (\<lambda>(p, f, s). length s))" by simp
next
  fix p :: re and f :: "rmatch \<Rightarrow> string" and s m x xs
  assume "re_search p s = Some m" "after m = x # xs"
  then show "((p, f, xs), (p, f, s)) \<in> measure (\<lambda>(p, f, s). length s)"
    using re_search_after_length(1) by fastforce
next
  fix p :: re and f :: "rmatch \<Rightarrow> string" and s m
  assume "re_search p s = Some m" "after m \<noteq> start m"
  then show "((p, f, after m), (p, f, s)) \<in> measure (\<lambda>(p, f, s). length s)"
    using re_search_after_length(2) by simp
qed


text \<open>\<open>re_count p s\<close> is the number of matches that the same scan finds, that is
  \<open>len(p.findall(s))\<close>.\<close>

function re_count :: "re \<Rightarrow> string \<Rightarrow> nat" where
  "re_count p s =
     (case re_search p s of
        None \<Rightarrow> 0
      | Some m \<Rightarrow>
          1 + (if after m = start m
               then (case after m of [] \<Rightarrow> 0 | x # xs \<Rightarrow> re_count p xs)
               else re_count p (after m)))"
  by pat_completeness auto
termination
proof (relation "measure (\<lambda>(p, s). length s)")
  show "wf (measure (\<lambda>(p, s). length s))" by simp
next
  fix p :: re and s m x xs
  assume "re_search p s = Some m" "after m = x # xs"
  then show "((p, xs), (p, s)) \<in> measure (\<lambda>(p, s). length s)"
    using re_search_after_length(1) by fastforce
next
  fix p :: re and s m
  assume "re_search p s = Some m" "after m \<noteq> start m"
  then show "((p, after m), (p, s)) \<in> measure (\<lambda>(p, s). length s)"
    using re_search_after_length(2) by simp
qed

subsection \<open>String operations of Python\<close>

text \<open>\<open>contains sub s\<close> is \<open>sub in s\<close>; \<open>str_replace\<close> is \<open>str.replace\<close>, which replaces every
  occurrence found from left to right; \<open>py_strip\<close> is \<open>str.strip()\<close>.\<close>

fun contains :: "string \<Rightarrow> string \<Rightarrow> bool" where
  "contains sub [] = (sub = [])"
| "contains sub (c # cs) = (strip_prefix sub (c # cs) \<noteq> None \<or> contains sub cs)"

definition str_replace :: "string \<Rightarrow> string \<Rightarrow> string \<Rightarrow> string" where
  "str_replace old new s = re_sub_fn (Lit old) (\<lambda>m. new) s"

definition py_strip :: "string \<Rightarrow> string" where
  "py_strip s = rev (dropWhile (in_cls Space) (rev (dropWhile (in_cls Space) s)))"

section \<open>The audit logging script\<close>

text \<open>
  \<open>update_audit_logging.py\<close>: the pattern of the wrapped \<open>prisma.auditLog.create\<close> call and
  the patterns that extract the fields of its data object.
\<close>

definition audit_pattern :: re where
  \<open>audit_pattern = seqs [Lit ''// Log the action (skip if audit log fails)'', ws, nl,
     ws, Lit ''try {'', ws, nl, ws, Lit ''await prisma.auditLog.create({'',
     Grp (seqs [Plus (NoneOf ''}''), Lit ''data:'', ws, Lit ''{'', Plus (NoneOf ''}''), Lit ''}'', Star (NoneOf ''}'')]),
     Lit ''});'', ws, nl, ws, Lit ''} catch ('', Plus (NoneOf '')''), Lit '') {'', ws, nl,
     ws, Lit ''console.warn('', Plus (NoneOf '')''), Lit '');'', Star (NoneOf ''}''), nl,
     ws, Lit ''}'']\<close>

definition user_id_re :: re where
  \<open>user_id_re = seqs [Lit ''userId:'', ws,
     Grp (Plus (NoneOf '',\<newline>''))]\<close>

definition action_re :: re where
  \<open>action_re = seqs [Lit ''action:'', ws, Cls quote, Grp (Plus Word),
     Cls quote]\<close>

definition resource_re :: re where
  \<open>resource_re = seqs [Lit ''resource:'', ws, Cls quote, Grp (Plus Word),
     Cls quote]\<close>

definition resource_id_re :: re where
  \<open>resource_id_re = seqs [Lit ''resourceId:'', ws,
     Grp (Plus (NoneOf '',\<newline>''))]\<close>

definition details_re :: re where
  \<open>details_re = seqs [Lit ''details:'', ws,
     Grp (seqs [Lit ''{'', Plus (NoneOf ''}''), Lit ''}''])]\<close>

text \<open>
  \<open>replace_audit_log\<close> is the function given to \<open>pattern.sub\<close>. When one of the first three
  field searches finds nothing it returns \<open>match.group(0)\<close>.
\<close>

definition replace_audit_log :: "rmatch \<Rightarrow> string" where
  \<open>replace_audit_log m =
     (let data_content = group1 m;
          user_id_match = re_search user_id_re data_content;
          action_match = re_search action_re data_content;
          resource_match = re_search resource_re data_content;
          resource_id_match = re_search resource_id_re data_content;
          details_match = re_search details_re data_content
      in case (user_id_match, action_match, resource_match) of
           (Some u, Some a, Some r) \<Rightarrow>
             (let user_id = py_strip (group1 u);
                  action = group1 a;
                  resource = group1 r;
                  resource_id = (case resource_id_match of
                                   Some i \<Rightarrow> py_strip (group1 i) | None \<Rightarrow> ''undefined'');
                  details = (case details_match of
                               Some d \<Rightarrow> py_strip (group1 d) | None \<Rightarrow> ''{}'')
              in ''// Audit log\<newline>    await logAudit({\<newline>      userId: '' @ user_id @
                 '',\<newline>      action: '' @ [CHR 0x27] @ action @
                 [CHR 0x27] @ '',\<newline>      resource: '' @ [CHR 0x27] @ resource @
                 [CHR 0x27] @ '',\<newline>      resourceId: '' @ resource_id @
                 '',\<newline>      details: '' @ details @
                 '',\<newline>      ipAddress: request.headers.get('x-forwarded-for') || request.ip || 'unknown',\<newline>      userAgent: request.headers.get('user-agent') || 'unknown',\<newline>    });'')
         | _ \<Rightarrow> group0 m)\<close>

definition prisma_anchor :: string where
  \<open>prisma_anchor = ''from '@/lib/db/prisma';''\<close>

definition log_audit_import :: string where
  \<open>log_audit_import = ''from '@/lib/db/prisma';\<newline>import { logAudit } from '@/lib/audit/logger';''\<close>

text \<open>Step 1 of \<open>update_file\<close>: the text and \<open>changes_made\<close> after the import step.\<close>

definition audit_add_import :: "string \<Rightarrow> string \<times> nat" where
  "audit_add_import content =
     (if \<not> contains ''logAudit'' content
      then (if contains prisma_anchor content
            then (str_replace prisma_anchor log_audit_import content, 1)
            else (content, 0))
      else (content, 0))"

text \<open>Step 2 follows: the text and \<open>changes_made\<close> when \<open>update_file\<close> reaches its write test.\<close>

definition audit_rewrite :: "string \<Rightarrow> string \<times> nat" where
  "audit_rewrite content0 =
     (let (content, changes_made) = audit_add_import content0;
          new_content = re_sub_fn audit_pattern replace_audit_log content
      in if new_content \<noteq> content then (new_content, changes_made + 1)
         else (content, changes_made))"

section \<open>The authorization scripts\<close>

text \<open>
  \<open>update_auth_patterns.py\<close> and \<open>update_auth_patterns_v2.py\<close> replace a manual role check
  by the text \<open>new_auth\<close>. \<open>re_sub p repl s\<close> is \<open>re.sub(p, repl, s)\<close> for a replacement
  text without group references, and \<open>re_sub1_fn p f s\<close> is a substitution with \<open>count=1\<close>.
\<close>

definition new_auth :: string where
  \<open>new_auth = ''// Authorization check\<newline>    const { error, session } = await requireAdminRole();\<newline>    if (error) return error;''\<close>

definition re_sub :: "re \<Rightarrow> string \<Rightarrow> string \<Rightarrow> string" where
  "re_sub p repl s = re_sub_fn p (\<lambda>m. repl) s"

definition re_sub1_fn :: "re \<Rightarrow> (rmatch \<Rightarrow> string) \<Rightarrow> string \<Rightarrow> string" where
  "re_sub1_fn p f s = (case re_search p s of None \<Rightarrow> s | Some m \<Rightarrow> before m @ f m @ after m)"

definition re_sub1 :: "re \<Rightarrow> string \<Rightarrow> string \<Rightarrow> string" where
  "re_sub1 p repl s = re_sub1_fn p (\<lambda>m. repl) s"

subsection \<open>\<open>update_auth_patterns.py\<close>\<close>

definition old_import_session :: re where
  \<open>old_import_session = Lit ''import { getServerSession } from 'next-auth';\<newline>''\<close>

definition old_import_options :: re where
  \<open>old_import_options = Lit ''import { authOptions } from '@/lib/auth/config';\<newline>''\<close>

definition next_import :: re where
  \<open>next_import = Grp (seqs [Lit ''import { '', Alt (Lit ''NextRequest, NextResponse'') (Lit ''NextResponse, NextRequest''), Lit '' } from 'next/server';''])\<close>

definition standard_pattern :: re where
  \<open>standard_pattern = seqs [
     Lit ''const session = await getServerSession(authOptions);'', ws, Lit ''if ('', ws,
     Lit ''!session?.user ||'', ws, Lit ''(session.user.role !== UserRole.ADMIN &&'', ws,
     Lit ''session.user.role !== UserRole.STAFF)'', ws, Lit '') {'', ws,
     Lit ''return NextResponse.json('', ws, Lit ''{ '',
     Alt (Lit ''message'') (Lit ''error''), Lit '': '', Cls quote,
     Alt (seqs [Lit ''Unauthorized'', Opt (Lit ''.''), Lit '' '', Opt (seqs [Lit ''Admin access required'', Opt (Lit ''.'')])]) (Lit ''Unauthorized''),
     Cls quote, Lit '' },'', ws, Lit ''{ status: '', Alt (Lit ''401'') (Lit ''403''),
     Lit '' }'', ws, Lit '');'', ws, Lit ''}'']\<close>

definition compact_pattern :: re where
  \<open>compact_pattern = seqs [
     Lit ''const session = await getServerSession(authOptions);'',
     Lit ''\<newline>\<newline>    if (!session?.user || (session.user.role !== UserRole.ADMIN && session.user.role !== UserRole.STAFF)) {\<newline>      return NextResponse.json({ '',
     Alt (Lit ''error'') (Lit ''message''), Lit '': '', Cls quote, Lit ''Unauthorized'',
     Cls quote, Lit '' }, { status: 401 });\<newline>    }'']\<close>

text \<open>Step 1: the old imports are removed and the new import is put after the first
  import of \<open>next/server\<close>, when the text does not contain \<open>requireAdminRole\<close>.\<close>

definition add_require_import :: "rmatch \<Rightarrow> string" where
  \<open>add_require_import m =
     group1 m @ ''\<newline>import { requireAdminRole } from '@/lib/auth/authorization';''\<close>

definition v1_imports :: "string \<Rightarrow> string" where
  "v1_imports content =
     (if \<not> contains ''requireAdminRole'' content
      then re_sub1_fn next_import add_require_import
             (re_sub old_import_options [] (re_sub old_import_session [] content))
      else content)"

text \<open>Step 2: the two substitutions of authorization blocks.\<close>

definition v1_blocks :: "string \<Rightarrow> string" where
  "v1_blocks content = re_sub compact_pattern new_auth (re_sub standard_pattern new_auth content)"

definition v1_rewrite :: "string \<Rightarrow> string" where
  "v1_rewrite content = v1_blocks (v1_imports content)"

subsection \<open>\<open>update_auth_patterns_v2.py\<close>\<close>

definition pattern1 :: re where
  \<open>pattern1 = seqs [Lit ''const session = await getServerSession(authOptions);'', ws,
     nl, ws, nl, ws, Lit ''if ('', ws, nl, ws, Lit ''!session?.user ||'', ws, nl, ws,
     Lit ''(session.user.role !== UserRole.ADMIN &&'', ws, nl, ws,
     Lit ''session.user.role !== UserRole.STAFF &&'', ws, nl, ws,
     Lit ''session.user.role !== UserRole.SUPERADMIN)'', ws, nl, ws, Lit '') {'', ws, nl,
     ws, Lit ''return NextResponse.json('', ws, nl, ws, Lit ''{ '',
     Alt (Lit ''message'') (Lit ''error''), Lit '': '', Cls quote, Star nonquote,
     Cls quote, Lit '' },'', ws, nl, ws, Lit ''{ status: '', Plus Digit, Lit '' }'', ws,
     nl, ws, Lit '');'', ws, nl, ws, Lit ''}'']\<close>

definition pattern2 :: re where
  \<open>pattern2 = seqs [Lit ''const session = await getServerSession(authOptions);'', ws,
     nl, ws, nl, ws, Lit ''if ('', ws, nl, ws, Lit ''!session?.user ||'', ws, nl, ws,
     Lit ''(session.user.role !== UserRole.ADMIN &&'', ws, nl, ws,
     Lit ''session.user.role !== UserRole.STAFF)'', ws, nl, ws, Lit '') {'', ws, nl, ws,
     Lit ''return NextResponse.json('', ws, nl, ws, Lit ''{ '',
     Alt (Lit ''message'') (Lit ''error''), Lit '': '', Cls quote, Star nonquote,
     Cls quote, Lit '' },'', ws, nl, ws, Lit ''{ status: '', Plus Digit, Lit '' }'', ws,
     nl, ws, Lit '');'', ws, nl, ws, Lit ''}'']\<close>

definition pattern3 :: re where
  \<open>pattern3 = seqs [Lit ''const session = await getServerSession(authOptions);'',
     Lit ''\<newline>\<newline>    if (!session?.user || (session.user.role !== UserRole.ADMIN && session.user.role !== UserRole.STAFF'',
     Opt (Lit ''&& session.user.role !== UserRole.SUPERADMIN''),
     Lit '')) {\<newline>      return NextResponse.json({ '',
     Alt (Lit ''error'') (Lit ''message''), Lit '': '', Cls quote, Star nonquote,
     Cls quote, Lit '' }, { status: '', Plus Digit, Lit '' });\<newline>    }'']\<close>

definition pattern4 :: re where
  \<open>pattern4 = seqs [Lit ''const session = await getServerSession(authOptions);'', ws,
     nl, ws, nl, ws, Lit ''if ('', ws, nl, ws, Lit ''!session?.user ||'', ws, nl, ws,
     Lit ''(session.user.role !== UserRole.ADMIN &&'', ws, nl, ws,
     Lit ''session.user.role !== UserRole.SUPERADMIN)'', ws, nl, ws, Lit '') {'', ws, nl,
     ws, Lit ''return NextResponse.json('', ws, nl, ws, Lit ''{ '',
     Alt (Lit ''message'') (Lit ''error''), Lit '': '', Cls quote, Star nonquote,
     Cls quote, Lit '' },'', ws, nl, ws, Lit ''{ status: '', Plus Digit, Lit '' }'', ws,
     nl, ws, Lit '');'', ws, nl, ws, Lit ''}'']\<close>

text \<open>
  Each \<open>while pattern.search(content)\<close> loop substitutes the first match and counts one
  change. The loop need not end for an arbitrary pattern and replacement, so it is a
  partial function: \<open>None\<close> stands for a loop that runs forever.
\<close>

partial_function (option) sub_loop :: "re \<Rightarrow> string \<Rightarrow> string \<Rightarrow> nat \<Rightarrow> (string \<times> nat) option" where
  "sub_loop p repl content changes_made =
     (case re_search p content of
        None \<Rightarrow> Some (content, changes_made)
      | Some m \<Rightarrow> sub_loop p repl (re_sub1 p repl content) (changes_made + 1))"

declare sub_loop.simps [code]

definition v2_rewrite :: "string \<Rightarrow> (string \<times> nat) option" where
  "v2_rewrite content =
     (case sub_loop pattern1 new_auth content 0 of
        None \<Rightarrow> None
      | Some (c1, n1) \<Rightarrow>
          (case sub_loop pattern2 new_auth c1 n1 of
             None \<Rightarrow> None
           | Some (c2, n2) \<Rightarrow>
               (case sub_loop pattern3 new_auth c2 n2 of
                  None \<Rightarrow> None
                | Some (c3, n3) \<Rightarrow> sub_loop pattern4 new_auth c3 n3)))"

section \<open>Files, console and the batch runs\<close>

text \<open>
  The file system maps a path to a file with its text or to an entry that exists but
  cannot be read; \<open>faults\<close> says which paths cannot be opened for writing or fail while
  written, with the message of the exception. \<open>console\<close> is the list of printed lines, each
  with the emoji it starts with and the text after it; \<open>writes\<close> records every call of
  \<open>f.write\<close>.
\<close>

datatype node = File string | Unreadable string

datatype wfault = OpenFault string | WriteFault string

datatype mark = Plain | Check | Warn | Cross | Cycle | Sparkles

record world =
  files :: "string \<rightharpoonup> node"
  faults :: "string \<rightharpoonup> wfault"
  console :: "(mark \<times> string) list"
  writes :: "(string \<times> string) list"

definition no_such_file :: "string \<Rightarrow> string" where
  \<open>no_such_file p = ''[Errno 2] No such file or directory: '' @ [CHR 0x27] @ p @ [CHR 0x27]\<close>

definition read_file :: "world \<Rightarrow> string \<Rightarrow> string + string" where
  "read_file w p =
     (case files w p of
        None \<Rightarrow> Inl (no_such_file p)
      | Some (Unreadable e) \<Rightarrow> Inl e
      | Some (File c) \<Rightarrow> Inr c)"

definition write_file :: "world \<Rightarrow> string \<Rightarrow> string \<Rightarrow> string option \<times> world" where
  "write_file w p c =
     (case faults w p of
        Some (OpenFault e) \<Rightarrow> (Some e, w)
      | Some (WriteFault e) \<Rightarrow>
          (Some e, w\<lparr>files := (files w)(p \<mapsto> File []), writes := writes w @ [(p, c)]\<rparr>)
      | None \<Rightarrow> (None, w\<lparr>files := (files w)(p \<mapsto> File c), writes := writes w @ [(p, c)]\<rparr>))"

definition print :: "world \<Rightarrow> mark \<times> string \<Rightarrow> world" where
  "print w l = w\<lparr>console := console w @ [l]\<rparr>"

definition path_exists :: "world \<Rightarrow> string \<Rightarrow> bool" where
  "path_exists w p = (files w p \<noteq> None)"

definition digit_char :: "nat \<Rightarrow> char" where
  "digit_char d = char_of (48 + d)"

fun show_nat :: "nat \<Rightarrow> string" where
  "show_nat n = (if n < 10 then [digit_char n] else show_nat (n div 10) @ [digit_char (n mod 10)])"

declare show_nat.simps [simp del]

definition error_line :: "string \<Rightarrow> string \<Rightarrow> mark \<times> string" where
  \<open>error_line p e = (Cross, '' Error updating '' @ p @ '': '' @ e)\<close>

subsection \<open>\<open>update_file\<close> and \<open>main\<close> of \<open>update_audit_logging.py\<close>\<close>

definition update_file_audit :: "world \<Rightarrow> string \<Rightarrow> bool \<times> world" where
  \<open>update_file_audit w filepath =
     (case read_file w filepath of
        Inl e \<Rightarrow> (False, print w (error_line filepath e))
      | Inr original_content \<Rightarrow>
          if \<not> contains ''prisma.auditLog.create'' original_content then (False, w)
          else
            (let (content, changes_made) = audit_rewrite original_content
             in if changes_made > 0 \<and> content \<noteq> original_content
                then (case write_file w filepath content of
                        (Some e, w') \<Rightarrow> (False, print w' (error_line filepath e))
                      | (None, w') \<Rightarrow>
                          (True, print w' (Check, '' Updated: '' @ filepath @ '' ('' @
                                   show_nat changes_made @ '' change(s))'')))
                else (False, w)))\<close>



definition tally_line :: "nat \<Rightarrow> nat \<Rightarrow> mark \<times> string" where
  \<open>tally_line updated considered =
     (Sparkles, '' Complete! Updated '' @ show_nat updated @ ''/'' @ show_nat considered @ '' files'')\<close>


subsection \<open>\<open>update_file\<close> and \<open>main\<close> of \<open>update_auth_patterns.py\<close>\<close>

definition files_to_update_v1 :: "string list" where
  \<open>files_to_update_v1 = [
     ''/Users/atiffriduan/Desktop/EcomJRM/src/app/api/admin/customers/[customerId]/route.ts'',
     ''/Users/atiffriduan/Desktop/EcomJRM/src/app/api/admin/discount-codes/route.ts'',
     ''/Users/atiffriduan/Desktop/EcomJRM/src/app/api/admin/discount-codes/[id]/route.ts'',
     ''/Users/atiffriduan/Desktop/EcomJRM/src/app/api/admin/payments/gateways/route.ts'',
     ''/Users/atiffriduan/Desktop/EcomJRM/src/app/api/admin/payments/stats/route.ts'',
     ''/Users/atiffriduan/Desktop/EcomJRM/src/app/api/admin/products/metrics/route.ts'',
     ''/Users/atiffriduan/Desktop/EcomJRM/src/app/api/admin/products/bulk/route.ts'',
     ''/Users/atiffriduan/Desktop/EcomJRM/src/app/api/admin/products/[id]/route.ts'',
     ''/Users/atiffriduan/Desktop/EcomJRM/src/app/api/admin/member-promotions/route.ts'',
     ''/Users/atiffriduan/Desktop/EcomJRM/src/app/api/admin/discounts/route.ts'',
     ''/Users/atiffriduan/Desktop/EcomJRM/src/app/api/admin/shipping/config/route.ts'',
     ''/Users/atiffriduan/Desktop/EcomJRM/src/app/api/admin/agent-applications/route.ts'',
     ''/Users/atiffriduan/Desktop/EcomJRM/src/app/api/admin/agent-applications/[id]/route.ts'',
     ''/Users/atiffriduan/Desktop/EcomJRM/src/app/api/admin/dashboard/stats/route.ts'',
     ''/Users/atiffriduan/Desktop/EcomJRM/src/app/api/admin/dashboard/analytics/route.ts'',
     ''/Users/atiffriduan/Desktop/EcomJRM/src/app/api/admin/orders/fulfillment/route.ts'',
     ''/Users/atiffriduan/Desktop/EcomJRM/src/app/api/admin/orders/bulk-update/route.ts'',
     ''/Users/atiffriduan/Desktop/EcomJRM/src/app/api/admin/orders/route.ts'',
     ''/Users/atiffriduan/Desktop/EcomJRM/src/app/api/admin/orders/[id]/airway-bill/route.ts'',
     ''/Users/atiffriduan/Desktop/EcomJRM/src/app/api/admin/orders/[id]/route.ts'',
     ''/Users/atiffriduan/Desktop/EcomJRM/src/app/api/admin/membership/pending/route.ts'',
     ''/Users/atiffriduan/Desktop/EcomJRM/src/app/api/admin/reports/route.ts'',
     ''/Users/atiffriduan/Desktop/EcomJRM/src/app/api/admin/reports/analytics/route.ts'']\<close>

definition update_file_v1 :: "world \<Rightarrow> string \<Rightarrow> bool \<times> world" where
  \<open>update_file_v1 w filepath =
     (case read_file w filepath of
        Inl e \<Rightarrow> (False, print w (error_line filepath e))
      | Inr original_content \<Rightarrow>
          (let content = v1_rewrite original_content
           in if content \<noteq> original_content
              then (case write_file w filepath content of
                      (Some e, w') \<Rightarrow> (False, print w' (error_line filepath e))
                    | (None, w') \<Rightarrow> (True, print w' (Check, '' Updated: '' @ filepath)))
              else (False, print w (Warn, ''  No changes needed: '' @ filepath))))\<close>

definition not_found_line :: "string \<Rightarrow> mark \<times> string" where
  \<open>not_found_line p = (Warn, ''  File not found: '' @ p)\<close>

fun run_v1 :: "world \<Rightarrow> string list \<Rightarrow> nat \<Rightarrow> world \<times> nat" where
  "run_v1 w [] updated_count = (w, updated_count)"
| "run_v1 w (p # ps) updated_count =
     (if path_exists w p
      then (case update_file_v1 w p of
              (True, w') \<Rightarrow> run_v1 w' ps (updated_count + 1)
            | (False, w') \<Rightarrow> run_v1 w' ps updated_count)
      else run_v1 (print w (not_found_line p)) ps updated_count)"

definition main_v1_on :: "string list \<Rightarrow> world \<Rightarrow> world" where
  \<open>main_v1_on files_to_update w =
     (let w1 = print w (Cycle, '' Updating '' @ show_nat (length files_to_update) @
                               '' admin route files...'');
          (w2, updated_count) = run_v1 w1 files_to_update 0
      in print (print w2 (Plain, [])) (tally_line updated_count (length files_to_update)))\<close>

definition main_v1 :: "world \<Rightarrow> world" where
  "main_v1 = main_v1_on files_to_update_v1"

subsection \<open>\<open>update_file\<close> and \<open>main\<close> of \<open>update_auth_patterns_v2.py\<close>\<close>

definition files_to_update_v2 :: "string list" where
  \<open>files_to_update_v2 = [
     ''/Users/atiffriduan/Desktop/EcomJRM/src/app/api/admin/customers/[customerId]/route.ts'',
     ''/Users/atiffriduan/Desktop/EcomJRM/src/app/api/admin/payments/gateways/route.ts'',
     ''/Users/atiffriduan/Desktop/EcomJRM/src/app/api/admin/payments/stats/route.ts'',
     ''/Users/atiffriduan/Desktop/EcomJRM/src/app/api/admin/products/bulk/route.ts'',
     ''/Users/atiffriduan/Desktop/EcomJRM/src/app/api/admin/products/[id]/route.ts'',
     ''/Users/atiffriduan/Desktop/EcomJRM/src/app/api/admin/discounts/route.ts'',
     ''/Users/atiffriduan/Desktop/EcomJRM/src/app/api/admin/shipping/config/route.ts'',
     ''/Users/atiffriduan/Desktop/EcomJRM/src/app/api/admin/agent-applications/route.ts'',
     ''/Users/atiffriduan/Desktop/EcomJRM/src/app/api/admin/agent-applications/[id]/route.ts'',
     ''/Users/atiffriduan/Desktop/EcomJRM/src/app/api/admin/orders/fulfillment/route.ts'',
     ''/Users/atiffriduan/Desktop/EcomJRM/src/app/api/admin/membership/pending/route.ts'']\<close>

definition update_file_v2 :: "world \<Rightarrow> string \<Rightarrow> (bool \<times> world) option" where
  \<open>update_file_v2 w filepath =
     (case read_file w filepath of
        Inl e \<Rightarrow> Some (False, print w (error_line filepath e))
      | Inr original_content \<Rightarrow>
          (case v2_rewrite original_content of
             None \<Rightarrow> None
           | Some (content, changes_made) \<Rightarrow>
               if changes_made > 0
               then (case write_file w filepath content of
                       (Some e, w') \<Rightarrow> Some (False, print w' (error_line filepath e))
                     | (None, w') \<Rightarrow>
                         Some (True, print w' (Check, '' Updated '' @ filepath @ '' ('' @
                                        show_nat changes_made @ '' handler(s))'')))
               else Some (False, print w (Warn, ''  No patterns matched: '' @ filepath))))\<close>

fun run_v2 :: "world \<Rightarrow> string list \<Rightarrow> nat \<Rightarrow> (world \<times> nat) option" where
  "run_v2 w [] updated_count = Some (w, updated_count)"
| "run_v2 w (p # ps) updated_count =
     (if path_exists w p
      then (case update_file_v2 w p of
              None \<Rightarrow> None
            | Some (True, w') \<Rightarrow> run_v2 w' ps (updated_count + 1)
            | Some (False, w') \<Rightarrow> run_v2 w' ps updated_count)
      else run_v2 (print w (not_found_line p)) ps updated_count)"

definition main_v2_on :: "string list \<Rightarrow> world \<Rightarrow> world option" where
  \<open>main_v2_on files_to_update w =
     (let w1 = print w (Cycle, '' Updating '' @ show_nat (length files_to_update) @
                               '' remaining admin route files...'')
      in case run_v2 w1 files_to_update 0 of
           None \<Rightarrow> None
         | Some (w2, updated_count) \<Rightarrow>
             Some (print (print w2 (Plain, []))
                     (tally_line updated_count (length files_to_update))))\<close>

definition main_v2 :: "world \<Rightarrow> world option" where
  "main_v2 = main_v2_on files_to_update_v2"

text \<open>
  \<open>wrote_changed w p w'\<close>: from \<open>w\<close> to \<open>w'\<close> either nothing was written, or exactly one
  text was written, to \<open>p\<close>, and it differs from the text read from \<open>p\<close> in \<open>w\<close>.
\<close>

definition wrote_changed :: "world \<Rightarrow> string \<Rightarrow> world \<Rightarrow> bool" where
  "wrote_changed w p w' =
     (writes w' = writes w \<or>
      (\<exists>original content. read_file w p = Inr original \<and> content \<noteq> original \<and>
         writes w' = writes w @ [(p, content)]))"

text \<open>A wrapped call whose data object has no \<open>resource\<close> field, and its match.\<close>

definition block_without_resource :: string where
  \<open>block_without_resource = ''// Log the action (skip if audit log fails)\<newline>    try {\<newline>      await prisma.auditLog.create({\<newline>        data: { userId: session.user.id, action: 'DELETE' },\<newline>      });\<newline>    } catch (auditError) {\<newline>      console.warn('Audit log failed');\<newline>    }''\<close>

definition declined_match :: rmatch where
  "declined_match = RMatch [] block_without_resource []
     (Some (drop 90 block_without_resource, drop 158 block_without_resource))"

text \<open>A small file system: a route that cannot be read, a route with an old import and
  an audit call, and a route with one authorization block; and the same with write faults.\<close>

definition locked_route :: string where
  \<open>locked_route = ''/app/api/admin/locked/route.ts''\<close>

definition orders_route :: string where
  \<open>orders_route = ''/app/api/admin/orders/route.ts''\<close>

definition users_route :: string where
  \<open>users_route = ''/app/api/admin/users/route.ts''\<close>

definition audited_route :: string where
  \<open>audited_route = ''/app/api/admin/audited/route.ts''\<close>


definition permission_denied :: string where
  \<open>permission_denied = ''[Errno 13] Permission denied''\<close>

definition orders_text :: string where
  \<open>orders_text = ''import { getServerSession } from 'next-auth';\<newline>import { prisma } from '@/lib/db/prisma';\<newline>\<newline>await prisma.auditLog.create({ data });\<newline>''\<close>

definition users_text :: string where
  \<open>users_text = ''export async function GET() {\<newline>    const session = await getServerSession(authOptions);\<newline>\<newline>    if (\<newline>      !session?.user ||\<newline>      (session.user.role !== UserRole.ADMIN &&\<newline>        session.user.role !== UserRole.STAFF)\<newline>    ) {\<newline>      return NextResponse.json(\<newline>        { message: 'Unauthorized' },\<newline>        { status: 401 }\<newline>      );\<newline>    }\<newline>}\<newline>''\<close>

definition audited_text :: string where
  \<open>audited_text = ''import { logAudit } from '@/lib/audit/logger';\<newline>await prisma.auditLog.create({ data });\<newline>''\<close>

definition sample_world :: world where
  "sample_world = \<lparr>files = [locked_route \<mapsto> Unreadable permission_denied,
                             orders_route \<mapsto> File orders_text, users_route \<mapsto> File users_text,
                             audited_route \<mapsto> File audited_text],
                    faults = Map.empty, console = [], writes = []\<rparr>"



definition users_migrated :: string where
  \<open>users_migrated = ''export async function GET() {\<newline>    // Authorization check\<newline>    const { error, session } = await requireAdminRole();\<newline>    if (error) return error;\<newline>}\<newline>''\<close>




text \<open>
  A route whose first handler is migrated and whose second is not; a route that imports
  from the Prisma module twice; and the number of places where a text occurs in another.
\<close>

definition partial_text :: string where
  \<open>partial_text = ''import { requireAdminRole } from '@/lib/auth/authorization';\<newline>'' @ users_text\<close>

definition partial_migrated :: string where
  \<open>partial_migrated = ''import { requireAdminRole } from '@/lib/auth/authorization';\<newline>'' @ users_migrated\<close>

definition two_anchor_text :: string where
  \<open>two_anchor_text = ''import { prisma } from '@/lib/db/prisma';\<newline>import type { Prisma } from '@/lib/db/prisma';\<newline>\<newline>await prisma.auditLog.create({ data });\<newline>''\<close>

definition two_imports_text :: string where
  \<open>two_imports_text = ''import { prisma } from '@/lib/db/prisma';\<newline>import { logAudit } from '@/lib/audit/logger';\<newline>import type { Prisma } from '@/lib/db/prisma';\<newline>import { logAudit } from '@/lib/audit/logger';\<newline>\<newline>await prisma.auditLog.create({ data });\<newline>''\<close>

fun occurrences :: "string \<Rightarrow> string \<Rightarrow> nat" where
  "occurrences sub [] = (if sub = [] then 1 else 0)"
| "occurrences sub (c # cs) =
     (if strip_prefix sub (c # cs) \<noteq> None then 1 else 0) + occurrences sub cs"

text \<open>
  An authorization block with the least white space, the same block with another such
  block as its quoted message, and the latter after one substitution. \<open>loop_ends\<close> says
  that a loop of \<open>update_auth_patterns_v2.py\<close> returns, with no match left.
\<close>

definition plain_block :: string where
  \<open>plain_block = ''const session = await getServerSession(authOptions);\<newline>\<newline>if (\<newline>!session?.user ||\<newline>(session.user.role !== UserRole.ADMIN &&\<newline>session.user.role !== UserRole.STAFF)\<newline>) {\<newline>return NextResponse.json(\<newline>{ error: '' @ [CHR 0x27] @ [CHR 0x27] @ '' },\<newline>{ status: 1 }\<newline>);\<newline>}''\<close>

definition nested_block :: string where
  \<open>nested_block = ''const session = await getServerSession(authOptions);\<newline>\<newline>if (\<newline>!session?.user ||\<newline>(session.user.role !== UserRole.ADMIN &&\<newline>session.user.role !== UserRole.STAFF)\<newline>) {\<newline>return NextResponse.json(\<newline>{ error: 'const session = await getServerSession(authOptions);\<newline>\<newline>if (\<newline>!session?.user ||\<newline>(session.user.role !== UserRole.ADMIN &&\<newline>session.user.role !== UserRole.STAFF)\<newline>) {\<newline>return NextResponse.json(\<newline>{ error: '' @ [CHR 0x27] @ [CHR 0x27] @ '' },\<newline>{ status: 1 }\<newline>);\<newline>}' },\<newline>{ status: 1 }\<newline>);\<newline>}''\<close>

definition nested_once :: string where
  \<open>nested_once = ''const session = await getServerSession(authOptions);\<newline>\<newline>if (\<newline>!session?.user ||\<newline>(session.user.role !== UserRole.ADMIN &&\<newline>session.user.role !== UserRole.STAFF)\<newline>) {\<newline>return NextResponse.json(\<newline>{ error: '// Authorization check\<newline>    const { error, session } = await requireAdminRole();\<newline>    if (error) return error;' },\<newline>{ status: 1 }\<newline>);\<newline>}''\<close>

definition loop_ends :: "re \<Rightarrow> string \<Rightarrow> nat \<Rightarrow> bool" where
  "loop_ends p content changes_made =
     (\<exists>content' changes_made'.
        sub_loop p new_auth content changes_made = Some (content', changes_made') \<and>
        re_search p content' = None \<and> changes_made \<le> changes_made' \<and>
        length content' + (changes_made' - changes_made) \<le> length content)"

subsection \<open>Files made of blocks and inert text\<close>

text \<open>
  \<open>hit p s\<close>: the pattern matches at the start of \<open>s\<close>. \<open>dead p t\<close>: no match starts inside
  \<open>t\<close>, whatever text follows \<open>t\<close>. \<open>occurrence p b\<close>: at the start of \<open>b\<close>, followed by any
  text, the pattern matches exactly \<open>b\<close>. A file is described as a list of pieces, each a
  text or a block with the pattern it is an occurrence of; it is well formed for a list of
  patterns when every text is dead for all of them and every block is an occurrence of its
  own pattern and dead for the others. \<open>migrated\<close> puts the replacement in place of a block;
  \<open>convert p\<close> does so for the blocks of \<open>p\<close> only. \<open>clear l t\<close> is a test that can be run:
  no suffix of \<open>t\<close> starts with \<open>l\<close> or is the start of \<open>l\<close>. \<open>stored w p c\<close>: the file at
  \<open>p\<close> holds \<open>c\<close> and can be written.
\<close>

definition hit :: "re \<Rightarrow> string \<Rightarrow> bool" where
  "hit p s = (re_run [Re p] s None \<noteq> None)"

definition dead :: "re \<Rightarrow> string \<Rightarrow> bool" where
  "dead p t = (\<forall>k<length t. \<forall>u. \<not> hit p (drop k t @ u))"


datatype piece = Text string | Block re string

fun piece_text :: "piece \<Rightarrow> string" where
  "piece_text (Text t) = t"
| "piece_text (Block p b) = b"

definition render :: "piece list \<Rightarrow> string" where
  "render ps = concat (map piece_text ps)"



















definition stored :: "world \<Rightarrow> string \<Rightarrow> string \<Rightarrow> bool" where
  "stored w p c = (read_file w p = Inr c \<and> faults w p = None)"


section \<open>Properties\<close>

lemma re_sub_fn_no_match: "re_search p s = None \<Longrightarrow> re_sub_fn p f s = s"
  by (subst re_sub_fn.simps) simp

lemma re_sub_no_match: "re_search p s = None \<Longrightarrow> re_sub p repl s = s"
  by (simp add: re_sub_def re_sub_fn_no_match)

subsection \<open>The loops of \<open>update_auth_patterns_v2.py\<close> end\<close>

text \<open>
  Every match of a pattern is at least as long as the pattern's least length, which for
  the four patterns exceeds the length of the replacement: a substitution shortens the
  text, so a loop runs at most as often as the text is long.
\<close>

lemma re_sub1_shorter:
  assumes "re_search p s = Some m" and "length repl < re_min p"
  shows "length (re_sub1 p repl s) < length s"
proof -
  from re_search_parts [OF assms(1)]
  have s: "s = before m @ group0 m @ after m" and len: "re_min p \<le> length (group0 m)"
    by simp_all
  have "length s = length (before m) + length (group0 m) + length (after m)"
    by (subst s) simp
  with assms len show ?thesis
    by (simp add: re_sub1_def re_sub1_fn_def)
qed

lemma sub_loop_total:
  assumes short: "length repl < re_min p"
  shows "\<exists>c' n'. sub_loop p repl c n = Some (c', n') \<and> re_search p c' = None \<and>
           n \<le> n' \<and> length c' + (n' - n) \<le> length c \<and> (n' = n \<longrightarrow> c' = c)"
proof (induction c arbitrary: n rule: measure_induct_rule [where f = length])
  case (less c)
  show ?case
  proof (cases "re_search p c")
    case None
    then have "sub_loop p repl c n = Some (c, n)"
      by (subst sub_loop.simps) simp
    with None show ?thesis by simp
  next
    case (Some m)
    let ?c1 = "re_sub1 p repl c"
    from re_sub1_shorter [OF Some short] have lt: "length ?c1 < length c" .
    from less.IH [OF lt, of "n + 1"] obtain c' n'
      where r: "sub_loop p repl ?c1 (n + 1) = Some (c', n')" "re_search p c' = None"
        "n + 1 \<le> n'" "length c' + (n' - (n + 1)) \<le> length ?c1"
      by blast
    from Some r(1) have "sub_loop p repl c n = Some (c', n')"
      by (subst sub_loop.simps) simp
    with r lt show ?thesis by auto
  qed
qed

lemma new_auth_short:
  "length new_auth < re_min pattern1" "length new_auth < re_min pattern2"
  "length new_auth < re_min pattern3" "length new_auth < re_min pattern4"
  by code_simp+

lemma v2_rewrite_total:
  "\<exists>c n. v2_rewrite s = Some (c, n) \<and> length c + n \<le> length s \<and> (n = 0 \<longrightarrow> c = s)"
proof -
  from sub_loop_total [OF new_auth_short(1), of s 0] obtain c1 n1
    where 1: "sub_loop pattern1 new_auth s 0 = Some (c1, n1)"
      "length c1 + n1 \<le> length s" "n1 = 0 \<longrightarrow> c1 = s"
    by auto
  from sub_loop_total [OF new_auth_short(2), of c1 n1] obtain c2 n2
    where 2: "sub_loop pattern2 new_auth c1 n1 = Some (c2, n2)" "n1 \<le> n2"
      "length c2 + (n2 - n1) \<le> length c1" "n2 = n1 \<longrightarrow> c2 = c1"
    by auto
  from sub_loop_total [OF new_auth_short(3), of c2 n2] obtain c3 n3
    where 3: "sub_loop pattern3 new_auth c2 n2 = Some (c3, n3)" "n2 \<le> n3"
      "length c3 + (n3 - n2) \<le> length c2" "n3 = n2 \<longrightarrow> c3 = c2"
    by auto
  from sub_loop_total [OF new_auth_short(4), of c3 n3] obtain c4 n4
    where 4: "sub_loop pattern4 new_auth c3 n3 = Some (c4, n4)" "n3 \<le> n4"
      "length c4 + (n4 - n3) \<le> length c3" "n4 = n3 \<longrightarrow> c4 = c3"
    by auto
  from 1(1) 2(1) 3(1) 4(1) have "v2_rewrite s = Some (c4, n4)"
    by (simp add: v2_rewrite_def)
  moreover from 1 2 3 4 have "length c4 + n4 \<le> length s" by linarith
  moreover from 1 2 3 4 have "n4 = 0 \<longrightarrow> c4 = s" by auto
  ultimately show ?thesis by blast
qed

subsection \<open>Effects of \<open>update_file\<close>\<close>

lemma writes_print [simp]: "writes (print w l) = writes w"
  by (simp add: print_def)

lemma console_print [simp]: "console (print w l) = console w @ [l]"
  by (simp add: print_def)

lemma files_print [simp]: "files (print w l) = files w"
  by (simp add: print_def)

lemma faults_print [simp]: "faults (print w l) = faults w"
  by (simp add: print_def)

lemma write_file_writes:
  "write_file w p c = (r, w') \<Longrightarrow> writes w' = writes w \<or> writes w' = writes w @ [(p, c)]"
  by (auto simp: write_file_def split: option.splits wfault.splits)


lemma wrote_changed_audit: "wrote_changed w p (snd (update_file_audit w p))"
proof (cases "read_file w p")
  case (Inl e)
  then show ?thesis by (simp add: update_file_audit_def wrote_changed_def)
next
  case (Inr original)
  obtain content n where rw: "audit_rewrite original = (content, n)" by force
  obtain r w' where wf: "write_file w p content = (r, w')" by force
  from write_file_writes [OF wf] Inr rw wf show ?thesis
    by (auto simp: update_file_audit_def wrote_changed_def split: option.splits)
qed

lemma wrote_changed_v1: "wrote_changed w p (snd (update_file_v1 w p))"
proof (cases "read_file w p")
  case (Inl e)
  then show ?thesis by (simp add: update_file_v1_def wrote_changed_def)
next
  case (Inr original)
  obtain r w' where wf: "write_file w p (v1_rewrite original) = (r, w')" by force
  from write_file_writes [OF wf] Inr wf show ?thesis
    by (auto simp: update_file_v1_def wrote_changed_def Let_def split: option.splits)
qed

lemma wrote_changed_v2: "\<exists>ok w'. update_file_v2 w p = Some (ok, w') \<and> wrote_changed w p w'"
proof (cases "read_file w p")
  case (Inl e)
  then show ?thesis by (auto simp: update_file_v2_def wrote_changed_def)
next
  case (Inr original)
  from v2_rewrite_total [of original] obtain content n
    where rw: "v2_rewrite original = Some (content, n)" "length content + n \<le> length original"
    by blast
  obtain r w' where wf: "write_file w p content = (r, w')" by force
  from rw(2) have ne: "0 < n \<Longrightarrow> content \<noteq> original" by auto
  from write_file_writes [OF wf] Inr rw(1) wf ne show ?thesis
    by (auto simp: update_file_v2_def wrote_changed_def split: option.splits)
qed








lemma read_error_exists: "read_file w p = Inl e \<Longrightarrow> path_exists w p \<Longrightarrow> files w p = Some (Unreadable e)"
  by (auto simp: read_file_def path_exists_def split: option.splits node.splits)

subsection \<open>Lines printed by the batch runs\<close>






subsection \<open>A block inside the message of a block\<close>

lemma nested_first_pass:
  "re_sub1 pattern2 new_auth nested_block = nested_once"
  by code_simp

lemma nested_second_pass:
  "re_sub1 pattern2 new_auth nested_once = new_auth"
  by code_simp

lemma nested_counts:
  "re_count pattern2 nested_block = 1" "re_count pattern2 nested_once = 1"
  by code_simp+

lemma nested_loop: "sub_loop pattern2 new_auth nested_block 0 = Some (new_auth, 2)"
  by code_simp

subsection \<open>Files made of blocks and inert text\<close>


lemma dead_Nil [simp]: "dead p []"
  by (simp add: dead_def)








lemma render_Cons [simp]: "render (x # ps) = piece_text x @ render ps"
  by (simp add: render_def)

lemma render_Nil [simp]: "render [] = []"
  by (simp add: render_def)





































lemma read_file_print [simp]: "read_file (print w l) p = read_file w p"
  by (simp add: read_file_def)

lemma stored_print [simp]: "stored (print w l) p c = stored w p c"
  by (simp add: stored_def)





subsection \<open>The claims\<close>

text \<open>
  Claim C1. When the userId, the action or the resource field cannot be extracted from a
  matched audit-log block, \<open>replace_audit_log\<close> returns the matched text itself, so the
  substitution pass copies that occurrence verbatim and goes on with the text after it.
\<close>

theorem replace_audit_log_declines:
  assumes "re_search audit_pattern s = Some m"
    and "re_search user_id_re (group1 m) = None \<or> re_search action_re (group1 m) = None \<or>
         re_search resource_re (group1 m) = None"
  shows "replace_audit_log m = group0 m \<and>
         s = before m @ group0 m @ after m \<and>
         re_sub_fn audit_pattern replace_audit_log s =
           before m @ group0 m @ re_sub_fn audit_pattern replace_audit_log (after m)"
proof -
  from assms(2) have r: "replace_audit_log m = group0 m"
    by (auto simp: replace_audit_log_def Let_def split: option.splits)
  from re_search_parts [OF assms(1)]
  have parts: "s = before m @ start m" "start m = group0 m @ after m"
    and len: "re_min audit_pattern \<le> length (group0 m)"
    by simp_all
  have "0 < re_min audit_pattern"
    by (simp add: audit_pattern_def)
  with len parts(2) have "after m \<noteq> start m" by auto
  with assms(1) r have "re_sub_fn audit_pattern replace_audit_log s =
      before m @ group0 m @ re_sub_fn audit_pattern replace_audit_log (after m)"
    by (subst re_sub_fn.simps) simp
  with r parts show ?thesis by simp
qed

theorem replace_audit_log_declines_witness:
  "re_search audit_pattern block_without_resource = Some declined_match \<and>
   re_search resource_re (group1 declined_match) = None \<and>
   replace_audit_log declined_match = group0 declined_match \<and>
   group0 declined_match = block_without_resource \<and>
   re_sub_fn audit_pattern replace_audit_log block_without_resource = block_without_resource"
proof -
  have found: "re_search audit_pattern block_without_resource = Some declined_match"
    by code_simp
  have missing: "re_search resource_re (group1 declined_match) = None"
    by code_simp
  have whole: "group0 declined_match = block_without_resource"
    "before declined_match = []" "after declined_match = []"
    by code_simp+
  have rest: "re_sub_fn audit_pattern replace_audit_log [] = []"
    by code_simp
  from replace_audit_log_declines [OF found disjI2 [OF disjI2 [OF missing]]] found missing whole rest
  show ?thesis by simp
qed

text \<open>
  Claim C2. Each of the three \<open>update_file\<close> functions writes the file at most once, and
  only a text that differs from the text it read; the function of
  \<open>update_auth_patterns_v2.py\<close>, which tests only \<open>changes_made > 0\<close>, returns for every
  file, and a counted change always shortens the text.
\<close>

theorem update_file_writes_once_if_changed:
  "wrote_changed w p (snd (update_file_audit w p)) \<and>
   wrote_changed w p (snd (update_file_v1 w p)) \<and>
   (\<exists>ok w'. update_file_v2 w p = Some (ok, w') \<and> wrote_changed w p w')"
  using wrote_changed_audit wrote_changed_v1 wrote_changed_v2 by blast

theorem update_file_writes_once_if_changed_witness:
  \<open>wrote_changed sample_world orders_route (snd (update_file_audit sample_world orders_route)) \<and>
   wrote_changed sample_world orders_route (snd (update_file_v1 sample_world orders_route)) \<and>
   (\<exists>ok w'. update_file_v2 sample_world users_route = Some (ok, w') \<and>
      wrote_changed sample_world users_route w') \<and>
   writes (snd (update_file_audit sample_world orders_route)) =
     [(orders_route, ''import { getServerSession } from 'next-auth';\<newline>import { prisma } from '@/lib/db/prisma';\<newline>import { logAudit } from '@/lib/audit/logger';\<newline>\<newline>await prisma.auditLog.create({ data });\<newline>'')] \<and>
   writes (snd (update_file_v1 sample_world orders_route)) =
     [(orders_route, ''import { prisma } from '@/lib/db/prisma';\<newline>\<newline>await prisma.auditLog.create({ data });\<newline>'')] \<and>
   map_option (writes \<circ> snd) (update_file_v2 sample_world users_route) =
     Some [(users_route, ''export async function GET() {\<newline>    // Authorization check\<newline>    const { error, session } = await requireAdminRole();\<newline>    if (error) return error;\<newline>}\<newline>'')] \<and>
   writes (snd (update_file_v1 sample_world locked_route)) = []\<close>
proof -
  have "writes (snd (update_file_audit sample_world orders_route)) =
     [(orders_route, ''import { getServerSession } from 'next-auth';\<newline>import { prisma } from '@/lib/db/prisma';\<newline>import { logAudit } from '@/lib/audit/logger';\<newline>\<newline>await prisma.auditLog.create({ data });\<newline>'')]"
    by code_simp
  moreover have "writes (snd (update_file_v1 sample_world orders_route)) =
     [(orders_route, ''import { prisma } from '@/lib/db/prisma';\<newline>\<newline>await prisma.auditLog.create({ data });\<newline>'')]"
    by code_simp
  moreover have "map_option (writes \<circ> snd) (update_file_v2 sample_world users_route) =
     Some [(users_route, ''export async function GET() {\<newline>    // Authorization check\<newline>    const { error, session } = await requireAdminRole();\<newline>    if (error) return error;\<newline>}\<newline>'')]"
    by code_simp
  moreover have "writes (snd (update_file_v1 sample_world locked_route)) = []"
    by code_simp
  ultimately show ?thesis
    using update_file_writes_once_if_changed [of sample_world orders_route]
      update_file_writes_once_if_changed [of sample_world users_route]
    by simp
qed

text \<open>
  Claim C3 says that a text in which the helper symbol occurs is returned unchanged and not
  written. In \<open>update_auth_patterns.py\<close> a file that contains \<open>requireAdminRole\<close> and one
  authorization block is rewritten and written.
\<close>

theorem helper_symbol_does_not_stop_rewriting_counterexample:
  \<open>contains ''requireAdminRole'' partial_text \<and>
   v1_rewrite partial_text = partial_migrated \<and>
   partial_migrated \<noteq> partial_text \<and>
   writes (snd (update_file_v1
     (sample_world\<lparr>files := [users_route \<mapsto> File partial_text]\<rparr>) users_route)) =
     [(users_route, partial_migrated)]\<close>
  by code_simp

text \<open>
  Claim C3, as amended. When the helper symbol occurs in the text, \<open>update_file\<close> skips the
  import step and nothing else: the block substitutions still run on the text as read. The
  text is returned unchanged, and the file is not written, when in addition no legacy
  pattern matches.
\<close>

theorem helper_symbol_skips_import_step_only:
  \<open>(contains ''requireAdminRole'' c \<longrightarrow>
      v1_rewrite c = re_sub compact_pattern new_auth (re_sub standard_pattern new_auth c) \<and>
      (re_search standard_pattern c = None \<and> re_search compact_pattern c = None \<longrightarrow>
         v1_rewrite c = c \<and>
         (read_file w p = Inr c \<longrightarrow>
            update_file_v1 w p = (False, print w (Warn, ''  No changes needed: '' @ p))))) \<and>
   (contains ''logAudit'' c \<longrightarrow>
      fst (audit_rewrite c) = re_sub_fn audit_pattern replace_audit_log c \<and>
      (re_search audit_pattern c = None \<longrightarrow>
         audit_rewrite c = (c, 0) \<and>
         (read_file w p = Inr c \<longrightarrow> update_file_audit w p = (False, w))))\<close>
  by (auto simp: v1_rewrite_def v1_imports_def v1_blocks_def re_sub_no_match re_sub_fn_no_match
      audit_rewrite_def audit_add_import_def update_file_v1_def update_file_audit_def Let_def)

theorem helper_symbol_skips_import_step_only_witness:
  \<open>contains ''requireAdminRole'' partial_migrated \<and>
   re_search standard_pattern partial_migrated = None \<and>
   re_search compact_pattern partial_migrated = None \<and>
   v1_rewrite partial_migrated = partial_migrated \<and>
   contains ''requireAdminRole'' partial_text \<and>
   v1_rewrite partial_text =
     re_sub compact_pattern new_auth (re_sub standard_pattern new_auth partial_text) \<and>
   contains ''logAudit'' audited_text \<and>
   re_search audit_pattern audited_text = None \<and>
   audit_rewrite audited_text = (audited_text, 0) \<and>
   update_file_audit sample_world audited_route = (False, sample_world)\<close>
proof -
  have v1: "contains ''requireAdminRole'' partial_migrated"
    "re_search standard_pattern partial_migrated = None"
    "re_search compact_pattern partial_migrated = None"
    "contains ''requireAdminRole'' partial_text"
    by code_simp+
  have au: "contains ''logAudit'' audited_text" "re_search audit_pattern audited_text = None"
    by code_simp+
  have rd: "read_file sample_world audited_route = Inr audited_text"
    by (simp add: read_file_def sample_world_def locked_route_def orders_route_def
        users_route_def audited_route_def)
  from helper_symbol_skips_import_step_only [of partial_migrated sample_world audited_route]
    helper_symbol_skips_import_step_only [of partial_text sample_world audited_route]
    helper_symbol_skips_import_step_only [of audited_text sample_world audited_route]
    v1 au rd
  show ?thesis by blast
qed










text \<open>
  Claim C7. \<open>update_audit_logging.py\<close> inserts the import line after every occurrence of the
  anchor, where \<open>update_auth_patterns.py\<close> inserts it once (\<open>count=1\<close>): a file that imports
  from the Prisma module twice gets two copies of the line in one run, and a second run
  leaves both.
\<close>

theorem log_audit_import_inserted_twice:
  \<open>audit_rewrite two_anchor_text = (two_imports_text, 1) \<and>
   occurrences ''import { logAudit } from '@/lib/audit/logger';'' two_imports_text = 2 \<and>
   audit_rewrite two_imports_text = (two_imports_text, 0) \<and>
   writes (snd (update_file_audit
     (sample_world\<lparr>files := [orders_route \<mapsto> File two_anchor_text]\<rparr>) orders_route)) =
     [(orders_route, two_imports_text)]\<close>
  by code_simp






text \<open>
  Claim C10 says that the number of remaining matches goes down with each iteration. For
  a block whose quoted message is itself a block, the inner block is the only match; after
  it is replaced the outer block is the only match.
\<close>

theorem matches_do_not_decrease_counterexample:
  "re_count pattern2 nested_block = 1 \<and>
   re_count pattern2 (re_sub1 pattern2 new_auth nested_block) = 1"
  using nested_counts nested_first_pass by simp

text \<open>
  Claim C10, as amended. For every text each of the four loops of \<open>update_file\<close> in
  \<open>update_auth_patterns_v2.py\<close> ends, with no match of its pattern left: every match is
  longer than the replacement, so each substitution shortens the text, and the loop runs at
  most as often as the text is long. The replacement itself contains no match.
\<close>

theorem v2_loops_end:
  "loop_ends pattern1 content changes_made \<and> loop_ends pattern2 content changes_made \<and>
   loop_ends pattern3 content changes_made \<and> loop_ends pattern4 content changes_made \<and>
   (\<forall>p \<in> {pattern1, pattern2, pattern3, pattern4}.
      re_search p new_auth = None \<and>
      (re_search p content \<noteq> None \<longrightarrow> length (re_sub1 p new_auth content) < length content))"
proof -
  have ends: "loop_ends p content changes_made" if "length new_auth < re_min p" for p
    using sub_loop_total [OF that, of content changes_made] by (auto simp: loop_ends_def)
  have none: "re_search pattern1 new_auth = None" "re_search pattern2 new_auth = None"
    "re_search pattern3 new_auth = None" "re_search pattern4 new_auth = None"
    by code_simp+
  have shorter: "re_search p content \<noteq> None \<longrightarrow> length (re_sub1 p new_auth content) < length content"
    if "length new_auth < re_min p" for p
    using re_sub1_shorter [OF _ that] by auto
  from ends none shorter new_auth_short show ?thesis by simp
qed

theorem v2_loops_end_witness:
  "loop_ends pattern2 nested_block 0 \<and>
   sub_loop pattern2 new_auth nested_block 0 = Some (new_auth, 2) \<and>
   re_search pattern2 nested_block \<noteq> None \<and>
   length (re_sub1 pattern2 new_auth nested_block) < length nested_block"
proof -
  have "re_search pattern2 nested_block \<noteq> None" by code_simp
  with v2_loops_end [of nested_block 0] nested_loop show ?thesis by simp
qed

end
